theory Spec2Isabelle
  imports Main "HOL-Library.Word"
begin

section \<open>Instruction and operand model\<close>

text \<open>
  Opcodes and register numbers are \<open>unsigned\<close> in the source, immediates are
  \<open>int64_t\<close>. A \<open>MachineBasicBlock *\<close> is the identity of a block; the null
  pointer is \<open>None\<close>.
\<close>

type_synonym opcode = "32 word"
type_synonym reg = "32 word"
type_synonym mbb = nat

text \<open>
  Every failed \<open>assert\<close> of the source and of the accessors it calls is a value:
  \<open>getOperand\<close> out of range, \<open>getReg\<close>, \<open>getImm\<close> and \<open>getMBB\<close> on an operand
  of another kind, an \<open>ArrayRef\<close> index out of range, \<open>RemoveOperand\<close> out of
  range, and the assertions written in MipsInstrInfo.cpp itself.
\<close>

datatype error =
    OperandOutOfRange
  | NotARegister
  | NotAnImmediate
  | NotAnMBB
  | InvalidIndex
  | CannotCopyOperand
  | AssertionFailed

text \<open>
  Modelled from the spec: the operand is a tagged variant (register reference,
  immediate integer, basic-block reference, external symbol); MachineOperand.h is
  not under src/. A register operand carries its implicit flag, the only operand
  flag the modelled code depends on.
\<close>

datatype MachineOperand =
    MO_Register reg bool
  | MO_Immediate "64 word"
  | MO_MachineBasicBlock mbb
  | MO_ExternalSymbol string

fun isReg :: "MachineOperand \<Rightarrow> bool" where
  "isReg (MO_Register r imp) = True"
| "isReg _ = False"

fun isImm :: "MachineOperand \<Rightarrow> bool" where
  "isImm (MO_Immediate i) = True"
| "isImm _ = False"

fun isImplicitReg :: "MachineOperand \<Rightarrow> bool" where
  "isImplicitReg (MO_Register r imp) = imp"
| "isImplicitReg _ = False"

fun getReg :: "MachineOperand \<Rightarrow> error + reg" where
  "getReg (MO_Register r imp) = Inr r"
| "getReg _ = Inl NotARegister"

fun getImm :: "MachineOperand \<Rightarrow> error + 64 word" where
  "getImm (MO_Immediate i) = Inr i"
| "getImm _ = Inl NotAnImmediate"

fun getMBB :: "MachineOperand \<Rightarrow> error + mbb" where
  "getMBB (MO_MachineBasicBlock b) = Inr b"
| "getMBB _ = Inl NotAnMBB"

definition CreateImm :: "64 word \<Rightarrow> MachineOperand" where
  "CreateImm v = MO_Immediate v"

text \<open>\<open>MachineOperand::CreateReg(Reg, isDef)\<close> with no further flag: not implicit.\<close>

definition CreateReg :: "reg \<Rightarrow> MachineOperand" where
  "CreateReg r = MO_Register r False"

definition CreateMBB :: "mbb \<Rightarrow> MachineOperand" where
  "CreateMBB b = MO_MachineBasicBlock b"

text \<open>
  Modelled from the spec: the opcode-description table entry (MCInstrDesc.h is not
  under src/): the opcode, the operand-schema arity, the classification flags the
  modelled functions read, and the implicit register operands every instruction of
  the opcode is created with.
\<close>

record MCInstrDesc =
  Opcode :: opcode
  NumOperands :: nat
  ImplicitOps :: "reg list"
  isBranchD :: bool
  isPseudoD :: bool
  isDebugValueD :: bool
  isUnconditionalBranchD :: bool
  isIndirectBranchD :: bool
  isUnpredicatedTerminatorD :: bool

text \<open>
  Modelled from the spec: an instruction is its description, its ordered operands
  (explicit operands first, implicit operands appended), its debug location and its
  memory-access descriptors (MachineInstr.h is not under src/).
\<close>

record MachineInstr =
  Desc :: MCInstrDesc
  Operands :: "MachineOperand list"
  DebugLoc :: nat
  memoperands :: "nat list"

definition getOpcode :: "MachineInstr \<Rightarrow> opcode" where
  "getOpcode MI = Opcode (Desc MI)"

definition getNumOperands :: "MachineInstr \<Rightarrow> nat" where
  "getNumOperands MI = length (Operands MI)"

text \<open>
  Modelled from the spec: the explicit operands are the first \<open>NumOperands\<close> (the
  schema arity) operands; variadic instructions are not modelled.
\<close>

definition getNumExplicitOperands :: "MachineInstr \<Rightarrow> nat" where
  "getNumExplicitOperands MI = NumOperands (Desc MI)"

definition getOperand :: "MachineInstr \<Rightarrow> nat \<Rightarrow> error + MachineOperand" where
  "getOperand MI i =
     (if i < length (Operands MI) then Inr (Operands MI ! i) else Inl OperandOutOfRange)"

definition isBranch :: "MachineInstr \<Rightarrow> bool" where
  "isBranch MI = isBranchD (Desc MI)"

definition isPseudo :: "MachineInstr \<Rightarrow> bool" where
  "isPseudo MI = isPseudoD (Desc MI)"

definition isDebugValue :: "MachineInstr \<Rightarrow> bool" where
  "isDebugValue MI = isDebugValueD (Desc MI)"

definition isUnconditionalBranch :: "MachineInstr \<Rightarrow> bool" where
  "isUnconditionalBranch MI = isUnconditionalBranchD (Desc MI)"

definition isIndirectBranch :: "MachineInstr \<Rightarrow> bool" where
  "isIndirectBranch MI = isIndirectBranchD (Desc MI)"

definition isUnpredicatedTerminator :: "MachineInstr \<Rightarrow> bool" where
  "isUnpredicatedTerminator MI = isUnpredicatedTerminatorD (Desc MI)"

text \<open>The operand \<open>I->getOperand(i).getReg()\<close>, with both assertions.\<close>

definition getOperandReg :: "MachineInstr \<Rightarrow> nat \<Rightarrow> error + reg" where
  "getOperandReg MI i = (case getOperand MI i of Inl e \<Rightarrow> Inl e | Inr MO \<Rightarrow> getReg MO)"

definition getOperandMBB :: "MachineInstr \<Rightarrow> nat \<Rightarrow> error + mbb" where
  "getOperandMBB MI i = (case getOperand MI i of Inl e \<Rightarrow> Inl e | Inr MO \<Rightarrow> getMBB MO)"

section \<open>Target tables and capabilities\<close>

text \<open>
  The enumerators of namespace \<open>Mips\<close> that MipsInstrInfo.cpp names. Their numeric
  values come from the generated MipsGenInstrInfo.inc, which is not under src/: the
  functions below take the numbering \<open>Mips :: MipsOpc \<Rightarrow> opcode\<close> and the two
  register numbers \<open>ZERO\<close> and \<open>ZERO_64\<close> as parameters.
\<close>

datatype MipsOpc =
    B | BAL | BEQ | BEQ_MM | BNE | BNE_MM | BGE | BGEU | BGEZ | BGTZ | BLEZ
  | BLT | BLTU | BLTZ | JR | PseudoReturn | PseudoIndirectBranch | JALRPseudo
  | JR64 | PseudoReturn64 | PseudoIndirectBranch64 | JALR64Pseudo
  | BC | BALC | BEQZC_MM | BNEZC_MM | BEQC | BNEC | BGEC | BGEUC | BGEZC
  | BGTZC | BLEZC | BLTC | BLTUC | BLTZC | JRC16_MM | JIC | JIALC | JIC64
  | JIALC64 | BEQZC | BNEZC

text \<open>
  Modelled from the spec: the capability flags the selector reads from the
  subtarget (MipsSubtarget.h and MipsABIInfo.h are not under src/): compressed
  mode, the revision tier, and the ABI's zero register.
\<close>

record MipsSubtarget =
  inMicroMipsMode :: bool
  hasMips32r6 :: bool
  GetZeroReg :: reg

section \<open>Compact-form selector\<close>

text \<open>\<open>I->getOperand(0).getReg() == I->getOperand(1).getReg()\<close>.\<close>

definition sameRegs :: "MachineInstr \<Rightarrow> error + bool" where
  "sameRegs I =
     (case getOperandReg I 0 of Inl e \<Rightarrow> Inl e
      | Inr r0 \<Rightarrow> (case getOperandReg I 1 of Inl e \<Rightarrow> Inl e | Inr r1 \<Rightarrow> Inr (r0 = r1)))"

text \<open>The first switch of \<open>getEquivalentCompactForm\<close>, under \<open>inMicroMipsMode()\<close>.\<close>

definition canUseShortMicroMipsCTI ::
  "(MipsOpc \<Rightarrow> opcode) \<Rightarrow> MipsSubtarget \<Rightarrow> MachineInstr \<Rightarrow> error + bool" where
  "canUseShortMicroMipsCTI Mips Subtarget I =
     (let Opc = getOpcode I in
      if inMicroMipsMode Subtarget then
        if Opc = Mips BNE \<or> Opc = Mips BNE_MM \<or> Opc = Mips BEQ \<or> Opc = Mips BEQ_MM then
          (case getOperandReg I 1 of Inl e \<Rightarrow> Inl e
           | Inr r \<Rightarrow> Inr (r = GetZeroReg Subtarget))
        else if Opc = Mips JR \<or> Opc = Mips PseudoReturn \<or> Opc = Mips PseudoIndirectBranch
          then Inr True
        else Inr False
      else Inr False)"

text \<open>The guard commented "MIPSR6 forbids both operands being the zero register".\<close>

definition bothZeroR6 :: "reg \<Rightarrow> reg \<Rightarrow> MipsSubtarget \<Rightarrow> MachineInstr \<Rightarrow> bool" where
  "bothZeroR6 ZERO ZERO_64 Subtarget I =
     (hasMips32r6 Subtarget \<and> getNumOperands I > 1 \<and>
      (case Operands I ! 0 of MO_Register r imp \<Rightarrow> r = ZERO \<or> r = ZERO_64 | _ \<Rightarrow> False) \<and>
      (case Operands I ! 1 of MO_Register r imp \<Rightarrow> r = ZERO \<or> r = ZERO_64 | _ \<Rightarrow> False))"

text \<open>A compact opcode unless the two compared registers are the same one.\<close>

definition unlessSameRegs :: "MachineInstr \<Rightarrow> opcode \<Rightarrow> error + opcode" where
  "unlessSameRegs I compact =
     (case sameRegs I of Inl e \<Rightarrow> Inl e | Inr same \<Rightarrow> Inr (if same then 0 else compact))"

text \<open>The second switch, in the order of its case labels.\<close>

definition compactSwitch ::
  "(MipsOpc \<Rightarrow> opcode) \<Rightarrow> bool \<Rightarrow> MachineInstr \<Rightarrow> error + opcode" where
  "compactSwitch Mips canUseShort I =
     (let Opc = getOpcode I in
      if Opc = Mips B then Inr (Mips BC)
      else if Opc = Mips BAL then Inr (Mips BALC)
      else if Opc = Mips BEQ \<or> Opc = Mips BEQ_MM then
        (if canUseShort then Inr (Mips BEQZC_MM) else unlessSameRegs I (Mips BEQC))
      else if Opc = Mips BNE \<or> Opc = Mips BNE_MM then
        (if canUseShort then Inr (Mips BNEZC_MM) else unlessSameRegs I (Mips BNEC))
      else if Opc = Mips BGE then unlessSameRegs I (Mips BGEC)
      else if Opc = Mips BGEU then unlessSameRegs I (Mips BGEUC)
      else if Opc = Mips BGEZ then Inr (Mips BGEZC)
      else if Opc = Mips BGTZ then Inr (Mips BGTZC)
      else if Opc = Mips BLEZ then Inr (Mips BLEZC)
      else if Opc = Mips BLT then unlessSameRegs I (Mips BLTC)
      else if Opc = Mips BLTU then unlessSameRegs I (Mips BLTUC)
      else if Opc = Mips BLTZ then Inr (Mips BLTZC)
      else if Opc = Mips JR \<or> Opc = Mips PseudoReturn \<or> Opc = Mips PseudoIndirectBranch then
        (if canUseShort then Inr (Mips JRC16_MM) else Inr (Mips JIC))
      else if Opc = Mips JALRPseudo then Inr (Mips JIALC)
      else if Opc = Mips JR64 \<or> Opc = Mips PseudoReturn64 \<or> Opc = Mips PseudoIndirectBranch64
        then Inr (Mips JIC64)
      else if Opc = Mips JALR64Pseudo then Inr (Mips JIALC64)
      else Inr 0)"

definition getEquivalentCompactForm ::
  "(MipsOpc \<Rightarrow> opcode) \<Rightarrow> reg \<Rightarrow> reg \<Rightarrow> MipsSubtarget \<Rightarrow> MachineInstr \<Rightarrow> error + opcode" where
  "getEquivalentCompactForm Mips ZERO ZERO_64 Subtarget I =
     (case canUseShortMicroMipsCTI Mips Subtarget I of Inl e \<Rightarrow> Inl e
      | Inr canUseShort \<Rightarrow>
          if bothZeroR6 ZERO ZERO_64 Subtarget I then Inr 0
          else if hasMips32r6 Subtarget \<or> canUseShort then compactSwitch Mips canUseShort I
          else Inr 0)"

section \<open>Building instructions\<close>

text \<open>
  Modelled from the spec: a new instruction of a description starts with the
  description's implicit register operands; an operand that is not an implicit
  register goes before the trailing implicit registers, an implicit register goes
  last (MachineInstrBuilder.h and MachineInstr.cpp are not under src/).
\<close>

definition BuildMI :: "nat \<Rightarrow> MCInstrDesc \<Rightarrow> MachineInstr" where
  "BuildMI DL MCID =
     \<lparr>Desc = MCID, Operands = map (\<lambda>r. MO_Register r True) (ImplicitOps MCID),
      DebugLoc = DL, memoperands = []\<rparr>"

definition insertOperand :: "MachineOperand list \<Rightarrow> MachineOperand \<Rightarrow> MachineOperand list" where
  "insertOperand ops MO =
     (if isImplicitReg MO then ops @ [MO]
      else rev (dropWhile isImplicitReg (rev ops)) @ [MO] @ rev (takeWhile isImplicitReg (rev ops)))"

definition addOperand :: "MachineInstr \<Rightarrow> MachineOperand \<Rightarrow> MachineInstr" where
  "addOperand MI MO = MI\<lparr>Operands := insertOperand (Operands MI) MO\<rparr>"

definition addReg :: "MachineInstr \<Rightarrow> reg \<Rightarrow> MachineInstr" where
  "addReg MI r = addOperand MI (CreateReg r)"

definition addImm :: "MachineInstr \<Rightarrow> 64 word \<Rightarrow> MachineInstr" where
  "addImm MI v = addOperand MI (CreateImm v)"

definition addMBB :: "MachineInstr \<Rightarrow> mbb \<Rightarrow> MachineInstr" where
  "addMBB MI b = addOperand MI (CreateMBB b)"

section \<open>Branch analysis\<close>

datatype BranchType =
    BT_None | BT_NoBranch | BT_Uncond | BT_Cond | BT_CondUncond | BT_Indirect

text \<open>
  \<open>getAnalyzableBrOpc\<close> and \<open>getOppositeBranchOpc\<close> are virtual functions that the
  subclasses (not under src/) define: the functions below take them as parameters.
\<close>

definition AnalyzeCondBr ::
  "(opcode \<Rightarrow> opcode) \<Rightarrow> MachineInstr \<Rightarrow> opcode \<Rightarrow> MachineOperand list \<Rightarrow>
     error + (mbb \<times> MachineOperand list)" where
  "AnalyzeCondBr getAnalyzableBrOpc Inst Opc Cond =
     (if getAnalyzableBrOpc Opc = 0 then Inl AssertionFailed
      else let NumOp = getNumExplicitOperands Inst in
        if NumOp = 0 then Inl OperandOutOfRange
        else (case getOperandMBB Inst (NumOp - 1) of Inl e \<Rightarrow> Inl e
              | Inr BB \<Rightarrow>
                  Inr (BB, Cond @ CreateImm (ucast Opc) # take (NumOp - 1) (Operands Inst))))"

record AnalyzeResult =
  retBT :: BranchType
  retMBB :: "MachineInstr list"
  retTBB :: "mbb option"
  retFBB :: "mbb option"
  retCond :: "MachineOperand list"
  retBranchInstrs :: "MachineInstr list"

text \<open>"If there is only one terminator instruction, process it."\<close>

definition oneTerminator ::
  "(opcode \<Rightarrow> opcode) \<Rightarrow> MachineInstr \<Rightarrow> AnalyzeResult \<Rightarrow> error + AnalyzeResult" where
  "oneTerminator getAnalyzableBrOpc LastInst st =
     (if isUnconditionalBranch LastInst then
        (case getOperandMBB LastInst 0 of Inl e \<Rightarrow> Inl e
         | Inr b \<Rightarrow> Inr (st\<lparr>retBT := BT_Uncond, retTBB := Some b\<rparr>))
      else
        (case AnalyzeCondBr getAnalyzableBrOpc LastInst (getOpcode LastInst) (retCond st) of
           Inl e \<Rightarrow> Inl e
         | Inr (b, C) \<Rightarrow> Inr (st\<lparr>retBT := BT_Cond, retTBB := Some b, retCond := C\<rparr>)))"

text \<open>
  "If we reached here, there are two branches." \<open>n\<close> is the number of instructions up
  to and including \<open>LastInst\<close>, \<open>R2\<close> the instructions before \<open>SecondLastInst\<close>, last
  one first.
\<close>

definition twoTerminators ::
  "(opcode \<Rightarrow> opcode) \<Rightarrow> bool \<Rightarrow> nat \<Rightarrow> MachineInstr \<Rightarrow> MachineInstr \<Rightarrow> opcode \<Rightarrow>
     MachineInstr list \<Rightarrow> AnalyzeResult \<Rightarrow> error + AnalyzeResult" where
  "twoTerminators getAnalyzableBrOpc AllowModify n LastInst SecondLastInst SecondLastOpc R2 st =
     (if (case R2 of [] \<Rightarrow> False | I # _ \<Rightarrow> isUnpredicatedTerminator I) then
        Inr (st\<lparr>retBT := BT_None\<rparr>)
      else let st2 = st\<lparr>retBranchInstrs := SecondLastInst # retBranchInstrs st\<rparr> in
        if isUnconditionalBranch SecondLastInst then
          (if \<not> AllowModify then Inr (st2\<lparr>retBT := BT_None\<rparr>)
           else (case getOperandMBB SecondLastInst 0 of Inl e \<Rightarrow> Inl e
                 | Inr b \<Rightarrow>
                     Inr (st2\<lparr>retBT := BT_Uncond, retTBB := Some b,
                              retMBB := take (n - 1) (retMBB st2) @ drop n (retMBB st2),
                              retBranchInstrs := butlast (retBranchInstrs st2)\<rparr>)))
        else if \<not> isUnconditionalBranch LastInst then Inr (st2\<lparr>retBT := BT_None\<rparr>)
        else (case AnalyzeCondBr getAnalyzableBrOpc SecondLastInst SecondLastOpc (retCond st2) of
                Inl e \<Rightarrow> Inl e
              | Inr (b, C) \<Rightarrow>
                  (case getOperandMBB LastInst 0 of Inl e \<Rightarrow> Inl e
                   | Inr f \<Rightarrow>
                       Inr (st2\<lparr>retBT := BT_CondUncond, retTBB := Some b, retCond := C,
                                retFBB := Some f\<rparr>))))"

text \<open>
  The detailed \<open>analyzeBranch\<close>. The reference parameters \<open>MBB\<close>, \<open>TBB\<close>, \<open>FBB\<close>,
  \<open>Cond\<close> and \<open>BranchInstrs\<close> come back in the result; instruction pointers in
  \<open>BranchInstrs\<close> are the instructions they point to. The reverse iterator \<open>I\<close> after
  the debug-skipping loop is the list \<open>dropWhile isDebugValue (rev MBB)\<close>.
\<close>

definition analyzeBranch ::
  "(opcode \<Rightarrow> opcode) \<Rightarrow> MachineInstr list \<Rightarrow> mbb option \<Rightarrow> mbb option \<Rightarrow>
     MachineOperand list \<Rightarrow> bool \<Rightarrow> MachineInstr list \<Rightarrow> error + AnalyzeResult" where
  "analyzeBranch getAnalyzableBrOpc MBB TBB FBB Cond AllowModify BranchInstrs =
     (let st = \<lparr>retBT = BT_None, retMBB = MBB, retTBB = TBB, retFBB = FBB,
                 retCond = Cond, retBranchInstrs = BranchInstrs\<rparr>
      in case dropWhile isDebugValue (rev MBB) of
        [] \<Rightarrow> Inr (st\<lparr>retBT := BT_NoBranch, retTBB := None, retFBB := None\<rparr>)
      | LastInst # R1 \<Rightarrow>
          if \<not> isUnpredicatedTerminator LastInst then
            Inr (st\<lparr>retBT := BT_NoBranch, retTBB := None, retFBB := None\<rparr>)
          else let LastOpc = getOpcode LastInst;
                   st1 = st\<lparr>retBranchInstrs := retBranchInstrs st @ [LastInst]\<rparr>
            in if getAnalyzableBrOpc LastOpc = 0 then
                 Inr (st1\<lparr>retBT := (if isIndirectBranch LastInst then BT_Indirect else BT_None)\<rparr>)
               else (case R1 of
                   [] \<Rightarrow> oneTerminator getAnalyzableBrOpc LastInst st1
                 | SecondLastInst # R2 \<Rightarrow>
                     let SecondLastOpc = getAnalyzableBrOpc (getOpcode SecondLastInst) in
                     if isUnpredicatedTerminator SecondLastInst \<and> SecondLastOpc = 0 then
                       Inr (st1\<lparr>retBT := BT_None\<rparr>)
                     else if SecondLastOpc = 0 then
                       oneTerminator getAnalyzableBrOpc LastInst st1
                     else twoTerminators getAnalyzableBrOpc AllowModify (Suc (Suc (length R2)))
                            LastInst SecondLastInst SecondLastOpc R2 st1))"

text \<open>The wrapper of the generic interface: true means "could not analyze".\<close>

definition analyzeBranchGeneric ::
  "(opcode \<Rightarrow> opcode) \<Rightarrow> MachineInstr list \<Rightarrow> mbb option \<Rightarrow> mbb option \<Rightarrow>
     MachineOperand list \<Rightarrow> bool \<Rightarrow> error + (bool \<times> AnalyzeResult)" where
  "analyzeBranchGeneric getAnalyzableBrOpc MBB TBB FBB Cond AllowModify =
     (case analyzeBranch getAnalyzableBrOpc MBB TBB FBB Cond AllowModify [] of
        Inl e \<Rightarrow> Inl e
      | Inr r \<Rightarrow> Inr (retBT r = BT_None \<or> retBT r = BT_Indirect, r))"

section \<open>Building, removing and reversing branches\<close>

text \<open>The loop of \<open>BuildCondBr\<close> over \<open>Cond[1..]\<close>.\<close>

fun copyCondOperands :: "MachineInstr \<Rightarrow> MachineOperand list \<Rightarrow> error + MachineInstr" where
  "copyCondOperands MIB [] = Inr MIB"
| "copyCondOperands MIB (MO # MOs) =
     (case MO of
        MO_Register r imp \<Rightarrow> copyCondOperands (addReg MIB r) MOs
      | MO_Immediate v \<Rightarrow> copyCondOperands (addImm MIB v) MOs
      | _ \<Rightarrow> Inl CannotCopyOperand)"

text \<open>
  \<open>BuildMI(&MBB, DL, MCID)\<close> puts the new instruction at the end of the block.
  \<open>get\<close> is the opcode-description table.
\<close>

definition BuildCondBr ::
  "(opcode \<Rightarrow> MCInstrDesc) \<Rightarrow> MachineInstr list \<Rightarrow> mbb \<Rightarrow> nat \<Rightarrow> MachineOperand list \<Rightarrow>
     error + MachineInstr list" where
  "BuildCondBr get MBB TBB DL Cond =
     (case Cond of
        [] \<Rightarrow> Inl InvalidIndex
      | C0 # Cs \<Rightarrow>
          (case getImm C0 of Inl e \<Rightarrow> Inl e
           | Inr v \<Rightarrow>
               (let Opc = (ucast v :: opcode) in
                case copyCondOperands (BuildMI DL (get Opc)) Cs of Inl e \<Rightarrow> Inl e
                | Inr MIB \<Rightarrow> Inr (MBB @ [addMBB MIB TBB]))))"

definition InsertBranch ::
  "(opcode \<Rightarrow> MCInstrDesc) \<Rightarrow> opcode \<Rightarrow> MachineInstr list \<Rightarrow> mbb option \<Rightarrow> mbb option \<Rightarrow>
     MachineOperand list \<Rightarrow> nat \<Rightarrow> error + (MachineInstr list \<times> nat)" where
  "InsertBranch get UncondBrOpc MBB TBB FBB Cond DL =
     (case TBB of
        None \<Rightarrow> Inl AssertionFailed
      | Some T \<Rightarrow>
          if \<not> length Cond \<le> 3 then Inl AssertionFailed
          else (case FBB of
              Some F \<Rightarrow>
                (case BuildCondBr get MBB T DL Cond of Inl e \<Rightarrow> Inl e
                 | Inr MBB1 \<Rightarrow> Inr (MBB1 @ [addMBB (BuildMI DL (get UncondBrOpc)) F], 2))
            | None \<Rightarrow>
                if Cond = [] then Inr (MBB @ [addMBB (BuildMI DL (get UncondBrOpc)) T], 1)
                else (case BuildCondBr get MBB T DL Cond of Inl e \<Rightarrow> Inl e
                      | Inr MBB1 \<Rightarrow> Inr (MBB1, 1))))"



definition ReverseBranchCondition ::
  "(opcode \<Rightarrow> opcode) \<Rightarrow> MachineOperand list \<Rightarrow> error + (MachineOperand list \<times> bool)" where
  "ReverseBranchCondition getOppositeBranchOpc Cond =
     (if \<not> (length Cond \<noteq> 0 \<and> length Cond \<le> 3) then Inl AssertionFailed
      else (case getImm (Cond ! 0) of Inl e \<Rightarrow> Inl e
            | Inr v \<Rightarrow>
                Inr (Cond[0 := MO_Immediate (ucast (getOppositeBranchOpc (ucast v)))], False)))"

section \<open>Instruction rebuilder\<close>

definition BranchWithZeroOperand :: "reg \<Rightarrow> reg \<Rightarrow> MachineInstr \<Rightarrow> error + bool" where
  "BranchWithZeroOperand ZERO ZERO_64 I =
     (if isBranch I \<and> \<not> isPseudo I then
        (case getOperand I 1 of Inl e \<Rightarrow> Inl e
         | Inr MO \<Rightarrow>
             Inr (case MO of MO_Register r imp \<Rightarrow> r = ZERO \<or> r = ZERO_64 | _ \<Rightarrow> False))
      else Inr False)"

text \<open>The switch that picks "the zero form of the branch".\<close>

definition zeroForm :: "(MipsOpc \<Rightarrow> opcode) \<Rightarrow> opcode \<Rightarrow> opcode" where
  "zeroForm Mips NewOpc =
     (if NewOpc = Mips BEQC then Mips BEQZC
      else if NewOpc = Mips BNEC then Mips BNEZC
      else if NewOpc = Mips BGEC then Mips BGEZC
      else if NewOpc = Mips BLTC then Mips BLTZC
      else NewOpc)"

text \<open>\<open>MIB.addOperand(I->getOperand(J))\<close> for each \<open>J\<close> of a list of indices.\<close>

fun addOperandsOf :: "MachineInstr \<Rightarrow> nat list \<Rightarrow> MachineInstr \<Rightarrow> error + MachineInstr" where
  "addOperandsOf I [] MIB = Inr MIB"
| "addOperandsOf I (J # Js) MIB =
     (case getOperand I J of Inl e \<Rightarrow> Inl e
      | Inr MO \<Rightarrow> addOperandsOf I Js (addOperand MIB MO))"

definition RemoveOperand0 :: "MachineInstr \<Rightarrow> error + MachineInstr" where
  "RemoveOperand0 MI =
     (case Operands MI of [] \<Rightarrow> Inl OperandOutOfRange
      | MO # MOs \<Rightarrow> Inr (MI\<lparr>Operands := MOs\<rparr>))"

text \<open>
  Modelled from the spec: "copy all of original's implicit operands verbatim": the
  implicit register operands after the schema's operands
  (\<open>MachineInstr::copyImplicitOps\<close> is not under src/).
\<close>

definition copyImplicitOps :: "MachineInstr \<Rightarrow> MachineInstr \<Rightarrow> MachineInstr" where
  "copyImplicitOps MIB I =
     fold (\<lambda>MO MI. addOperand MI MO)
       (filter isImplicitReg (drop (NumOperands (Desc I)) (Operands I))) MIB"

definition setMemRefs :: "MachineInstr \<Rightarrow> nat list \<Rightarrow> MachineInstr" where
  "setMemRefs MIB refs = MIB\<lparr>memoperands := refs\<rparr>"

text \<open>The three ways of copying the explicit operands.\<close>

definition copyExplicitOps ::
  "(MipsOpc \<Rightarrow> opcode) \<Rightarrow> opcode \<Rightarrow> bool \<Rightarrow> MachineInstr \<Rightarrow> MachineInstr \<Rightarrow>
     error + MachineInstr" where
  "copyExplicitOps Mips NewOpc BranchWithZero I MIB =
     (let E = NumOperands (Desc I) in
      if NewOpc = Mips JIC \<or> NewOpc = Mips JIALC \<or> NewOpc = Mips JIC64 \<or> NewOpc = Mips JIALC64
      then
        (case (if NewOpc = Mips JIALC \<or> NewOpc = Mips JIALC64 then RemoveOperand0 MIB
               else Inr MIB) of
           Inl e \<Rightarrow> Inl e
         | Inr MIB1 \<Rightarrow>
             (case addOperandsOf I [0..<E] MIB1 of Inl e \<Rightarrow> Inl e
              | Inr MIB2 \<Rightarrow> Inr (addImm MIB2 0)))
      else if BranchWithZero then addOperandsOf I (0 # [2..<E]) MIB
      else addOperandsOf I [0..<E] MIB)"

text \<open>
  \<open>genInstrWithNewOpc\<close>: the iterator \<open>I\<close> is the position \<open>i\<close> in its parent block
  \<open>MBB\<close>; the new instruction is inserted before it. The result is the block and the
  new instruction.
\<close>

definition genInstrWithNewOpc ::
  "(MipsOpc \<Rightarrow> opcode) \<Rightarrow> reg \<Rightarrow> reg \<Rightarrow> (opcode \<Rightarrow> MCInstrDesc) \<Rightarrow> opcode \<Rightarrow>
     MachineInstr list \<Rightarrow> nat \<Rightarrow> error + (MachineInstr list \<times> MachineInstr)" where
  "genInstrWithNewOpc Mips ZERO ZERO_64 get NewOpc0 MBB i =
     (if \<not> i < length MBB then Inl InvalidIndex
      else let I = MBB ! i in
        (case BranchWithZeroOperand ZERO ZERO_64 I of Inl e \<Rightarrow> Inl e
         | Inr BranchWithZero \<Rightarrow>
             (let NewOpc = (if BranchWithZero then zeroForm Mips NewOpc0 else NewOpc0) in
              case copyExplicitOps Mips NewOpc BranchWithZero I
                     (BuildMI (DebugLoc I) (get NewOpc)) of
                Inl e \<Rightarrow> Inl e
              | Inr MIB \<Rightarrow>
                  (let MI = setMemRefs (copyImplicitOps MIB I) (memoperands I)
                   in Inr (take i MBB @ MI # drop i MBB, MI)))))"

section \<open>The negation table, and sample tables for concrete evaluation\<close>

text \<open>
  Modelled from the spec: the "fixed opcode\<leftrightarrow>opcode table" of negations
  (\<open>getOppositeBranchOpc\<close>, defined in the subclasses, not under src/) pairs an opcode
  with its logical negation, so at an opcode it lists it is its own inverse.
\<close>

definition negationTable :: "(opcode \<Rightarrow> opcode) \<Rightarrow> opcode \<Rightarrow> bool" where
  "negationTable getOppositeBranchOpc Opc \<longleftrightarrow>
     getOppositeBranchOpc (getOppositeBranchOpc Opc) = Opc"

text \<open>
  The generated tables are not under src/. The concrete evaluations below use one
  injective numbering of the enumerators, two register numbers, a description table,
  a set of analyzable opcodes and a negation table of the shape the source expects;
  the general theorems do not depend on them.
\<close>

primrec sampleMips :: "MipsOpc \<Rightarrow> opcode" where
  "sampleMips B = 101"
| "sampleMips BAL = 102"
| "sampleMips BEQ = 103"
| "sampleMips BEQ_MM = 104"
| "sampleMips BNE = 105"
| "sampleMips BNE_MM = 106"
| "sampleMips BGE = 107"
| "sampleMips BGEU = 108"
| "sampleMips BGEZ = 109"
| "sampleMips BGTZ = 110"
| "sampleMips BLEZ = 111"
| "sampleMips BLT = 112"
| "sampleMips BLTU = 113"
| "sampleMips BLTZ = 114"
| "sampleMips JR = 115"
| "sampleMips PseudoReturn = 116"
| "sampleMips PseudoIndirectBranch = 117"
| "sampleMips JALRPseudo = 118"
| "sampleMips JR64 = 119"
| "sampleMips PseudoReturn64 = 120"
| "sampleMips PseudoIndirectBranch64 = 121"
| "sampleMips JALR64Pseudo = 122"
| "sampleMips BC = 123"
| "sampleMips BALC = 124"
| "sampleMips BEQZC_MM = 125"
| "sampleMips BNEZC_MM = 126"
| "sampleMips BEQC = 127"
| "sampleMips BNEC = 128"
| "sampleMips BGEC = 129"
| "sampleMips BGEUC = 130"
| "sampleMips BGEZC = 131"
| "sampleMips BGTZC = 132"
| "sampleMips BLEZC = 133"
| "sampleMips BLTC = 134"
| "sampleMips BLTUC = 135"
| "sampleMips BLTZC = 136"
| "sampleMips JRC16_MM = 137"
| "sampleMips JIC = 138"
| "sampleMips JIALC = 139"
| "sampleMips JIC64 = 140"
| "sampleMips JIALC64 = 141"
| "sampleMips BEQZC = 142"
| "sampleMips BNEZC = 143"

definition sampleZERO :: reg where
  "sampleZERO = 1"

definition sampleZERO_64 :: reg where
  "sampleZERO_64 = 2"

text \<open>
  Opcode 11 stands for the debug marker, 12 for an ordinary instruction that is no
  terminator; 101 (\<open>B\<close>) is the unconditional branch, 115 (\<open>JR\<close>) the indirect jump.
\<close>

definition sampleGet :: "opcode \<Rightarrow> MCInstrDesc" where
  "sampleGet Opc =
     \<lparr>Opcode = Opc,
      NumOperands = (if Opc = 11 \<or> Opc = 12 then 0 else if Opc = 101 \<or> Opc = 115 then 1
                     else if Opc = 125 \<or> Opc = 126 \<or> Opc = 142 \<or> Opc = 143 then 2 else 3),
      ImplicitOps = [],
      isBranchD = (Opc \<noteq> 11 \<and> Opc \<noteq> 12),
      isPseudoD = False,
      isDebugValueD = (Opc = 11),
      isUnconditionalBranchD = (Opc = 101),
      isIndirectBranchD = (Opc = 115),
      isUnpredicatedTerminatorD = (Opc \<noteq> 11 \<and> Opc \<noteq> 12)\<rparr>"

definition sampleInstr :: "opcode \<Rightarrow> MachineOperand list \<Rightarrow> MachineInstr" where
  "sampleInstr Opc MOs = \<lparr>Desc = sampleGet Opc, Operands = MOs, DebugLoc = 0, memoperands = []\<rparr>"

definition sampleAnalyzableBrOpc :: "opcode \<Rightarrow> opcode" where
  "sampleAnalyzableBrOpc Opc =
     (if Opc = 101 \<or> Opc = 103 \<or> Opc = 104 \<or> Opc = 105 \<or> Opc = 106 \<or> Opc = 109 \<or>
         Opc = 110 \<or> Opc = 111 \<or> Opc = 114 then Opc else 0)"

definition sampleOppositeBranchOpc :: "opcode \<Rightarrow> opcode" where
  "sampleOppositeBranchOpc Opc =
     (if Opc = 103 then 105 else if Opc = 105 then 103
      else if Opc = 110 then 111 else if Opc = 111 then 110
      else if Opc = 109 then 114 else if Opc = 114 then 109
      else Opc)"

definition sampleSubtarget :: "bool \<Rightarrow> bool \<Rightarrow> MipsSubtarget" where
  "sampleSubtarget microMips r6 =
     \<lparr>inMicroMipsMode = microMips, hasMips32r6 = r6, GetZeroReg = sampleZERO\<rparr>"

section \<open>Shared lemmas\<close>

lemma inj_sampleMips: "inj sampleMips"
proof (rule injI)
  fix x y
  assume "sampleMips x = sampleMips y"
  then show "x = y" by (cases x; cases y; simp)
qed

lemma opcode_imm_opcode: "(ucast (ucast (Opc :: 32 word) :: 64 word) :: 32 word) = Opc"
  by (rule ucast_up_ucast_id) (simp add: is_up)

lemma skip_debug:
  assumes "\<forall>d\<in>set dbgs. isDebugValue d" and "\<not> isDebugValue l"
  shows "dropWhile isDebugValue (rev (pre @ l # dbgs)) = l # rev pre"
proof -
  have "dropWhile isDebugValue (rev dbgs @ l # rev pre) = dropWhile isDebugValue (l # rev pre)"
    using assms(1) by (intro dropWhile_append2) simp
  then show ?thesis using assms(2) by simp
qed

text \<open>Every block splits into a body and its trailing debug markers.\<close>

lemma block_split:
  "\<exists>body dbgs. MBB = body @ dbgs \<and> (\<forall>d\<in>set dbgs. isDebugValue d) \<and>
     (body = [] \<or> \<not> isDebugValue (last body))"
proof (intro exI conjI)
  show "MBB = rev (dropWhile isDebugValue (rev MBB)) @ rev (takeWhile isDebugValue (rev MBB))"
    by (metis rev_append rev_rev_ident takeWhile_dropWhile_id)
  show "\<forall>d\<in>set (rev (takeWhile isDebugValue (rev MBB))). isDebugValue d"
    by (auto dest: set_takeWhileD)
  show "rev (dropWhile isDebugValue (rev MBB)) = [] \<or>
        \<not> isDebugValue (last (rev (dropWhile isDebugValue (rev MBB))))"
  proof (cases "dropWhile isDebugValue (rev MBB) = []")
    case True
    then show ?thesis by simp
  next
    case False
    then show ?thesis using hd_dropWhile [OF False] by (simp add: last_rev)
  qed
qed

lemma getOperandMBB_0:
  "Operands I = MO_MachineBasicBlock t # rest \<Longrightarrow> getOperandMBB I 0 = Inr t"
  by (simp add: getOperandMBB_def getOperand_def)

lemma insertOperand_explicit:
  assumes imps: "\<forall>x\<in>set imps. isImplicitReg x"
    and expl: "\<forall>x\<in>set expl. \<not> isImplicitReg x"
    and MO: "\<not> isImplicitReg MO"
  shows "insertOperand (expl @ imps) MO = expl @ MO # imps"
proof -
  have t0: "takeWhile isImplicitReg (rev expl) = []"
    using expl by (cases "rev expl") (auto simp add: rev_eq_Cons_iff)
  have d0: "dropWhile isImplicitReg (rev expl) = rev expl"
    using expl by (cases "rev expl") (auto simp add: rev_eq_Cons_iff)
  have "takeWhile isImplicitReg (rev imps @ rev expl) =
          rev imps @ takeWhile isImplicitReg (rev expl)"
    by (rule takeWhile_append2) (use imps in simp)
  then have t: "takeWhile isImplicitReg (rev imps @ rev expl) = rev imps"
    using t0 by simp
  have "dropWhile isImplicitReg (rev imps @ rev expl) = dropWhile isImplicitReg (rev expl)"
    by (rule dropWhile_append2) (use imps in simp)
  then have d: "dropWhile isImplicitReg (rev imps @ rev expl) = rev expl"
    using d0 by simp
  show ?thesis using MO by (simp add: insertOperand_def t d)
qed

lemmas sample_defs =
  sampleInstr_def sampleGet_def sampleZERO_def sampleZERO_64_def sampleSubtarget_def
  sampleAnalyzableBrOpc_def sampleOppositeBranchOpc_def

lemmas accessor_defs =
  getOpcode_def getNumOperands_def getNumExplicitOperands_def getOperand_def getOperandReg_def
  getOperandMBB_def isBranch_def isPseudo_def isDebugValue_def isUnconditionalBranch_def
  isIndirectBranch_def isUnpredicatedTerminator_def

section \<open>Compact-form selector: C1 and C4\<close>

text \<open>
  C1, as amended. For a \<open>BEQ\<close>, \<open>BNE\<close>, \<open>BEQ_MM\<close> or \<open>BNE_MM\<close> whose two compared
  operands are the same register \<open>r\<close>, \<open>getEquivalentCompactForm\<close> returns 0 under
  every revision tier, except in microMIPS mode when \<open>r\<close> is the ABI's zero register
  and the R6 zero-pair guard does not fire: there the short-form rule comes first and
  the result is \<open>BEQZC_MM\<close> (for \<open>BEQ\<close>, \<open>BEQ_MM\<close>) or \<open>BNEZC_MM\<close> (for \<open>BNE\<close>,
  \<open>BNE_MM\<close>).
\<close>

theorem getEquivalentCompactForm_same_regs:
  assumes inj: "inj Mips"
    and opc: "getOpcode I = Mips BEQ \<or> getOpcode I = Mips BEQ_MM \<or>
              getOpcode I = Mips BNE \<or> getOpcode I = Mips BNE_MM"
    and ops: "Operands I = MO_Register r i0 # MO_Register r i1 # rest"
  shows "getEquivalentCompactForm Mips ZERO ZERO_64 Subtarget I =
     Inr (if inMicroMipsMode Subtarget \<and> r = GetZeroReg Subtarget \<and>
             \<not> (hasMips32r6 Subtarget \<and> (r = ZERO \<or> r = ZERO_64))
          then (if getOpcode I = Mips BEQ \<or> getOpcode I = Mips BEQ_MM then Mips BEQZC_MM
                else Mips BNEZC_MM)
          else 0)"
proof -
  note eq = inj_eq [OF inj]
  have short: "canUseShortMicroMipsCTI Mips Subtarget I =
                 Inr (inMicroMipsMode Subtarget \<and> r = GetZeroReg Subtarget)"
    using ops opc
    by (auto simp add: canUseShortMicroMipsCTI_def Let_def getOperandReg_def getOperand_def)
  have same: "unlessSameRegs I c = Inr 0" for c
    using ops by (simp add: unlessSameRegs_def sameRegs_def getOperandReg_def getOperand_def)
  have bz: "bothZeroR6 ZERO ZERO_64 Subtarget I =
              (hasMips32r6 Subtarget \<and> (r = ZERO \<or> r = ZERO_64))"
    using ops by (auto simp add: bothZeroR6_def getNumOperands_def)
  have sw: "compactSwitch Mips c I =
              Inr (if c then (if getOpcode I = Mips BEQ \<or> getOpcode I = Mips BEQ_MM
                              then Mips BEQZC_MM else Mips BNEZC_MM)
                   else 0)" for c
    using opc by (auto simp add: compactSwitch_def Let_def same eq)
  show ?thesis
    by (auto simp add: getEquivalentCompactForm_def short bz sw)
qed

theorem getEquivalentCompactForm_same_regs_witness:
  "getOpcode (sampleInstr (sampleMips BEQ)
       [MO_Register 5 False, MO_Register 5 False, MO_MachineBasicBlock 7]) = sampleMips BEQ \<and>
   getEquivalentCompactForm sampleMips sampleZERO sampleZERO_64 (sampleSubtarget False True)
     (sampleInstr (sampleMips BEQ)
       [MO_Register 5 False, MO_Register 5 False, MO_MachineBasicBlock 7]) = Inr 0"
proof -
  have opc: "getOpcode (sampleInstr (sampleMips BEQ)
       [MO_Register 5 False, MO_Register 5 False, MO_MachineBasicBlock 7]) = sampleMips BEQ"
    by (simp add: getOpcode_def sample_defs)
  have ops: "Operands (sampleInstr (sampleMips BEQ)
       [MO_Register 5 False, MO_Register 5 False, MO_MachineBasicBlock 7]) =
       MO_Register 5 False # MO_Register 5 False # [MO_MachineBasicBlock 7]"
    by (simp add: sample_defs)
  show ?thesis
    using getEquivalentCompactForm_same_regs [OF inj_sampleMips disjI1 [OF opc] ops,
        of sampleZERO sampleZERO_64 "sampleSubtarget False True"] opc
    by (simp add: sample_defs)
qed

text \<open>
  The claim as stated fails in microMIPS mode without R6: \<open>BEQ $zero, $zero\<close> gets
  the short form \<open>BEQZC_MM\<close>.
\<close>

theorem getEquivalentCompactForm_same_regs_counterexample:
  "getEquivalentCompactForm sampleMips sampleZERO sampleZERO_64 (sampleSubtarget True False)
     (sampleInstr (sampleMips BEQ)
       [MO_Register sampleZERO False, MO_Register sampleZERO False, MO_MachineBasicBlock 7]) =
     Inr (sampleMips BEQZC_MM) \<and>
   sampleMips BEQZC_MM \<noteq> 0"
  by (simp add: getEquivalentCompactForm_def canUseShortMicroMipsCTI_def bothZeroR6_def
      compactSwitch_def accessor_defs sample_defs)

text \<open>
  C4, as amended. When both compared operands are zero registers (\<open>ZERO\<close> or
  \<open>ZERO_64\<close>), \<open>getEquivalentCompactForm\<close> returns 0 for every opcode under the R6 tier,
  in microMIPS mode or not, before any other rule; it also returns 0 outside
  microMIPS mode. (Without R6 the guard is not tested, and the microMIPS short-form
  rule applies.)
\<close>

theorem getEquivalentCompactForm_both_zero:
  assumes tier: "hasMips32r6 Subtarget \<or> \<not> inMicroMipsMode Subtarget"
    and ops: "Operands I = MO_Register r0 i0 # MO_Register r1 i1 # rest"
    and z0: "r0 = ZERO \<or> r0 = ZERO_64"
    and z1: "r1 = ZERO \<or> r1 = ZERO_64"
  shows "getEquivalentCompactForm Mips ZERO ZERO_64 Subtarget I = Inr 0"
proof -
  have "\<exists>b. canUseShortMicroMipsCTI Mips Subtarget I = Inr b \<and>
             (b \<longrightarrow> inMicroMipsMode Subtarget)"
    using ops
    by (auto simp add: canUseShortMicroMipsCTI_def Let_def getOperandReg_def getOperand_def)
  then obtain b where b: "canUseShortMicroMipsCTI Mips Subtarget I = Inr b"
      "b \<longrightarrow> inMicroMipsMode Subtarget"
    by blast
  show ?thesis
  proof (cases "hasMips32r6 Subtarget")
    case True
    then have "bothZeroR6 ZERO ZERO_64 Subtarget I"
      using ops z0 z1 by (simp add: bothZeroR6_def getNumOperands_def)
    then show ?thesis using b by (simp add: getEquivalentCompactForm_def)
  next
    case False
    then have "\<not> b" using tier b by blast
    moreover have "\<not> bothZeroR6 ZERO ZERO_64 Subtarget I"
      using False by (simp add: bothZeroR6_def)
    ultimately show ?thesis using b False by (simp add: getEquivalentCompactForm_def)
  qed
qed

theorem getEquivalentCompactForm_both_zero_witness:
  "hasMips32r6 (sampleSubtarget True True) \<and>
   getEquivalentCompactForm sampleMips sampleZERO sampleZERO_64 (sampleSubtarget True True)
     (sampleInstr (sampleMips BEQ)
       [MO_Register sampleZERO False, MO_Register sampleZERO_64 False,
        MO_MachineBasicBlock 7]) = Inr 0"
proof -
  have tier: "hasMips32r6 (sampleSubtarget True True)"
    by (simp add: sample_defs)
  have ops: "Operands (sampleInstr (sampleMips BEQ)
       [MO_Register sampleZERO False, MO_Register sampleZERO_64 False,
        MO_MachineBasicBlock 7]) =
       MO_Register sampleZERO False # MO_Register sampleZERO_64 False #
       [MO_MachineBasicBlock 7]"
    by (simp add: sampleInstr_def)
  show ?thesis
    using getEquivalentCompactForm_both_zero [OF disjI1 [OF tier] ops disjI1 [OF refl]
        disjI2 [OF refl], of sampleMips] tier
    by simp
qed

text \<open>
  The claim as stated fails in microMIPS mode without R6: \<open>BNE $zero, $zero\<close> is
  mapped to \<open>BNEZC_MM\<close>.
\<close>

theorem getEquivalentCompactForm_both_zero_counterexample:
  "getEquivalentCompactForm sampleMips sampleZERO sampleZERO_64 (sampleSubtarget True False)
     (sampleInstr (sampleMips BNE)
       [MO_Register sampleZERO False, MO_Register sampleZERO False, MO_MachineBasicBlock 7]) =
     Inr (sampleMips BNEZC_MM) \<and>
   sampleMips BNEZC_MM \<noteq> 0"
  by (simp add: getEquivalentCompactForm_def canUseShortMicroMipsCTI_def bothZeroR6_def
      compactSwitch_def accessor_defs sample_defs)

section \<open>Branch analysis: C3, C8, C9 and C10\<close>

lemma analyzeBranch_two:
  assumes "dropWhile isDebugValue (rev MBB) = Last # SecondLast # R2"
    and "isUnpredicatedTerminator Last" and "A (getOpcode Last) \<noteq> 0"
    and "A (getOpcode SecondLast) \<noteq> 0"
  shows "analyzeBranch A MBB TBB FBB Cond AM BI =
           twoTerminators A AM (Suc (Suc (length R2))) Last SecondLast
             (A (getOpcode SecondLast)) R2
             \<lparr>retBT = BT_None, retMBB = MBB, retTBB = TBB, retFBB = FBB, retCond = Cond,
              retBranchInstrs = BI @ [Last]\<rparr>"
  using assms by (simp add: analyzeBranch_def Let_def)

lemma analyzeBranch_not_analyzable:
  assumes "dropWhile isDebugValue (rev MBB) = Last # R1"
    and "isUnpredicatedTerminator Last" and "A (getOpcode Last) = 0"
  shows "analyzeBranch A MBB TBB FBB Cond AM BI =
           Inr \<lparr>retBT = (if isIndirectBranch Last then BT_Indirect else BT_None), retMBB = MBB,
                retTBB = TBB, retFBB = FBB, retCond = Cond, retBranchInstrs = BI @ [Last]\<rparr>"
  using assms by (simp add: analyzeBranch_def Let_def)

lemma analyzeBranch_no_terminator:
  assumes "dropWhile isDebugValue (rev MBB) = Last # R1"
    and "\<not> isUnpredicatedTerminator Last"
  shows "analyzeBranch A MBB TBB FBB Cond AM BI =
           Inr \<lparr>retBT = BT_NoBranch, retMBB = MBB, retTBB = None, retFBB = None,
                retCond = Cond, retBranchInstrs = BI\<rparr>"
  using assms by (simp add: analyzeBranch_def Let_def)

lemma analyzeBranch_all_debug:
  assumes "\<forall>d\<in>set MBB. isDebugValue d"
  shows "analyzeBranch A MBB TBB FBB Cond AM BI =
           Inr \<lparr>retBT = BT_NoBranch, retMBB = MBB, retTBB = None, retFBB = None,
                retCond = Cond, retBranchInstrs = BI\<rparr>"
proof -
  have E: "dropWhile isDebugValue (rev MBB) = []" using assms by simp
  show ?thesis by (simp add: analyzeBranch_def Let_def E)
qed

lemma oneTerminator_MBB: "oneTerminator A L st = Inr r \<Longrightarrow> retMBB r = retMBB st"
  by (auto simp add: oneTerminator_def split: if_splits sum.splits prod.splits)

lemma twoTerminators_MBB:
  "twoTerminators A False n L S SO R2 st = Inr r \<Longrightarrow> retMBB r = retMBB st"
  by (auto simp add: twoTerminators_def Let_def split: if_splits sum.splits prod.splits)

lemmas analysis_defs =
  analyzeBranch_def analyzeBranchGeneric_def oneTerminator_def twoTerminators_def
  AnalyzeCondBr_def CreateImm_def Let_def

text \<open>
  C3, as amended. Let the block end, before its trailing debug markers, with two
  adjacent instructions whose opcodes are both analyzable, the last one a real
  terminator and no debug marker, the second-last an unconditional branch to a block
  \<open>t\<close>, with no third terminator before them. If the permission-to-mutate flag is
  false, \<open>analyzeBranch\<close> reports \<open>BT_None\<close> and block, targets and condition are
  unchanged; if it is true, it reports \<open>BT_Uncond\<close> with the true target \<open>t\<close> and
  deletes the last instruction, keeping the debug markers.
\<close>

theorem analyzeBranch_second_last_uncond:
  assumes dbg: "\<forall>d\<in>set dbgs. isDebugValue d"
    and last: "\<not> isDebugValue Last" "isUnpredicatedTerminator Last"
    and ana: "A (getOpcode Last) \<noteq> 0" "A (getOpcode SecondLast) \<noteq> 0"
    and third: "pre = [] \<or> \<not> isUnpredicatedTerminator (last pre)"
    and unc: "isUnconditionalBranch SecondLast"
    and tgt: "Operands SecondLast = MO_MachineBasicBlock t # rest"
  shows "analyzeBranch A (pre @ [SecondLast, Last] @ dbgs) TBB FBB Cond False BI =
           Inr \<lparr>retBT = BT_None, retMBB = pre @ [SecondLast, Last] @ dbgs, retTBB = TBB,
                retFBB = FBB, retCond = Cond, retBranchInstrs = SecondLast # BI @ [Last]\<rparr> \<and>
         analyzeBranch A (pre @ [SecondLast, Last] @ dbgs) TBB FBB Cond True BI =
           Inr \<lparr>retBT = BT_Uncond, retMBB = pre @ [SecondLast] @ dbgs, retTBB = Some t,
                retFBB = FBB, retCond = Cond, retBranchInstrs = SecondLast # BI\<rparr>"
proof -
  have R: "dropWhile isDebugValue (rev (pre @ [SecondLast, Last] @ dbgs)) =
             Last # SecondLast # rev pre"
    using skip_debug [OF dbg last(1), of "pre @ [SecondLast]"] by simp
  have no3: "\<not> (case rev pre of [] \<Rightarrow> False | I # _ \<Rightarrow> isUnpredicatedTerminator I)"
    using third by (cases pre rule: rev_cases) auto
  show ?thesis
    unfolding analyzeBranch_two [OF R last(2) ana]
    using no3 unc
    by (simp add: twoTerminators_def Let_def getOperandMBB_0 [OF tgt] butlast_append)
qed

theorem analyzeBranch_second_last_uncond_witness:
  "analyzeBranch sampleAnalyzableBrOpc
     [sampleInstr 12 [], sampleInstr 101 [MO_MachineBasicBlock 1],
      sampleInstr 103 [MO_Register 4 False, MO_Register 5 False, MO_MachineBasicBlock 2],
      sampleInstr 11 []] None None [] False [] =
     Inr \<lparr>retBT = BT_None,
          retMBB = [sampleInstr 12 [], sampleInstr 101 [MO_MachineBasicBlock 1],
            sampleInstr 103 [MO_Register 4 False, MO_Register 5 False, MO_MachineBasicBlock 2],
            sampleInstr 11 []],
          retTBB = None, retFBB = None, retCond = [],
          retBranchInstrs = [sampleInstr 101 [MO_MachineBasicBlock 1],
            sampleInstr 103 [MO_Register 4 False, MO_Register 5 False, MO_MachineBasicBlock 2]]\<rparr> \<and>
   analyzeBranch sampleAnalyzableBrOpc
     [sampleInstr 12 [], sampleInstr 101 [MO_MachineBasicBlock 1],
      sampleInstr 103 [MO_Register 4 False, MO_Register 5 False, MO_MachineBasicBlock 2],
      sampleInstr 11 []] None None [] True [] =
     Inr \<lparr>retBT = BT_Uncond,
          retMBB = [sampleInstr 12 [], sampleInstr 101 [MO_MachineBasicBlock 1],
            sampleInstr 11 []],
          retTBB = Some 1, retFBB = None, retCond = [],
          retBranchInstrs = [sampleInstr 101 [MO_MachineBasicBlock 1]]\<rparr>"
  using analyzeBranch_second_last_uncond [of "[sampleInstr 11 []]"
      "sampleInstr 103 [MO_Register 4 False, MO_Register 5 False, MO_MachineBasicBlock 2]"
      sampleAnalyzableBrOpc "sampleInstr 101 [MO_MachineBasicBlock 1]" "[sampleInstr 12 []]"
      1 "[]" None None "[]" "[]"]
  by (simp add: accessor_defs sample_defs)

text \<open>
  The claim as stated fails when the last of the two terminators has an opcode that
  is not analyzable: after an unconditional branch and an indirect jump the answer is
  \<open>BT_Indirect\<close> even with permission to mutate, and nothing is deleted.
\<close>

theorem analyzeBranch_second_last_uncond_counterexample:
  "isUnpredicatedTerminator (sampleInstr 101 [MO_MachineBasicBlock 1]) \<and>
   isUnconditionalBranch (sampleInstr 101 [MO_MachineBasicBlock 1]) \<and>
   isUnpredicatedTerminator (sampleInstr 115 [MO_Register 31 False]) \<and>
   \<not> isUnpredicatedTerminator (sampleInstr 12 []) \<and>
   analyzeBranch sampleAnalyzableBrOpc
     [sampleInstr 12 [], sampleInstr 101 [MO_MachineBasicBlock 1],
      sampleInstr 115 [MO_Register 31 False]] None None [] True [] =
     Inr \<lparr>retBT = BT_Indirect,
          retMBB = [sampleInstr 12 [], sampleInstr 101 [MO_MachineBasicBlock 1],
            sampleInstr 115 [MO_Register 31 False]],
          retTBB = None, retFBB = None, retCond = [],
          retBranchInstrs = [sampleInstr 115 [MO_Register 31 False]]\<rparr>"
  by (simp add: analysis_defs accessor_defs sample_defs)




text \<open>
  C9. Whenever \<open>analyzeBranch\<close> is called without permission to mutate and returns,
  the block it returns is the block it was given, in every classification case.
\<close>

theorem analyzeBranch_no_modify_frame:
  assumes "analyzeBranch A MBB TBB FBB Cond False BI = Inr r"
  shows "retMBB r = MBB"
  using assms
  by (auto simp add: analyzeBranch_def Let_def split: list.splits if_splits
      dest!: oneTerminator_MBB twoTerminators_MBB)

theorem analyzeBranch_no_modify_frame_witness:
  "analyzeBranch sampleAnalyzableBrOpc
     [sampleInstr 101 [MO_MachineBasicBlock 1],
      sampleInstr 103 [MO_Register 4 False, MO_Register 5 False, MO_MachineBasicBlock 2]]
     None None [] False [] =
     Inr \<lparr>retBT = BT_None,
          retMBB = [sampleInstr 101 [MO_MachineBasicBlock 1],
            sampleInstr 103 [MO_Register 4 False, MO_Register 5 False, MO_MachineBasicBlock 2]],
          retTBB = None, retFBB = None, retCond = [],
          retBranchInstrs = [sampleInstr 101 [MO_MachineBasicBlock 1],
            sampleInstr 103 [MO_Register 4 False, MO_Register 5 False, MO_MachineBasicBlock 2]]\<rparr> \<and>
   retMBB \<lparr>retBT = BT_None,
          retMBB = [sampleInstr 101 [MO_MachineBasicBlock 1],
            sampleInstr 103 [MO_Register 4 False, MO_Register 5 False, MO_MachineBasicBlock 2]],
          retTBB = None, retFBB = None, retCond = [],
          retBranchInstrs = [sampleInstr 101 [MO_MachineBasicBlock 1],
            sampleInstr 103 [MO_Register 4 False, MO_Register 5 False, MO_MachineBasicBlock 2]]\<rparr> =
     [sampleInstr 101 [MO_MachineBasicBlock 1],
      sampleInstr 103 [MO_Register 4 False, MO_Register 5 False, MO_MachineBasicBlock 2]]"
proof -
  have run: "analyzeBranch sampleAnalyzableBrOpc
     [sampleInstr 101 [MO_MachineBasicBlock 1],
      sampleInstr 103 [MO_Register 4 False, MO_Register 5 False, MO_MachineBasicBlock 2]]
     None None [] False [] =
     Inr \<lparr>retBT = BT_None,
          retMBB = [sampleInstr 101 [MO_MachineBasicBlock 1],
            sampleInstr 103 [MO_Register 4 False, MO_Register 5 False, MO_MachineBasicBlock 2]],
          retTBB = None, retFBB = None, retCond = [],
          retBranchInstrs = [sampleInstr 101 [MO_MachineBasicBlock 1],
            sampleInstr 103 [MO_Register 4 False, MO_Register 5 False, MO_MachineBasicBlock 2]]\<rparr>"
    by (simp add: analysis_defs accessor_defs sample_defs)
  show ?thesis
    using run analyzeBranch_no_modify_frame [OF run] by blast
qed

text \<open>
  C10. The wrapper \<open>analyzeBranch\<close> of the generic interface returns what the detailed
  analysis returns together with the flag "could not analyze", which is true exactly
  when the classification is \<open>BT_None\<close> or \<open>BT_Indirect\<close>, and it fails exactly when
  the detailed analysis fails. In particular a block whose last real instruction is a
  terminator with an opcode that is not analyzable is reported with the flag true
  whether the terminator is an indirect branch or not, and a block that falls through
  (its last real instruction is no terminator, or it has no real instruction) is
  reported with the flag false and \<open>BT_NoBranch\<close>.
\<close>

theorem analyzeBranchGeneric_result:
  "(\<forall>r. analyzeBranch A MBB TBB FBB Cond AllowModify [] = Inr r \<longrightarrow>
      analyzeBranchGeneric A MBB TBB FBB Cond AllowModify =
        Inr (retBT r = BT_None \<or> retBT r = BT_Indirect, r)) \<and>
   (\<forall>e. analyzeBranch A MBB TBB FBB Cond AllowModify [] = Inl e \<longrightarrow>
      analyzeBranchGeneric A MBB TBB FBB Cond AllowModify = Inl e) \<and>
   (\<forall>pre Last dbgs.
      MBB = pre @ [Last] @ dbgs \<and> (\<forall>d\<in>set dbgs. isDebugValue d) \<and> \<not> isDebugValue Last \<and>
      isUnpredicatedTerminator Last \<and> A (getOpcode Last) = 0 \<longrightarrow>
      (\<exists>r. analyzeBranchGeneric A MBB TBB FBB Cond AllowModify = Inr (True, r) \<and>
           retBT r = (if isIndirectBranch Last then BT_Indirect else BT_None))) \<and>
   (\<forall>pre Last dbgs.
      MBB = pre @ [Last] @ dbgs \<and> (\<forall>d\<in>set dbgs. isDebugValue d) \<and> \<not> isDebugValue Last \<and>
      \<not> isUnpredicatedTerminator Last \<longrightarrow>
      (\<exists>r. analyzeBranchGeneric A MBB TBB FBB Cond AllowModify = Inr (False, r) \<and>
           retBT r = BT_NoBranch)) \<and>
   ((\<forall>d\<in>set MBB. isDebugValue d) \<longrightarrow>
      (\<exists>r. analyzeBranchGeneric A MBB TBB FBB Cond AllowModify = Inr (False, r) \<and>
           retBT r = BT_NoBranch))"
proof (intro conjI allI impI)
  fix r
  assume "analyzeBranch A MBB TBB FBB Cond AllowModify [] = Inr r"
  then show "analyzeBranchGeneric A MBB TBB FBB Cond AllowModify =
        Inr (retBT r = BT_None \<or> retBT r = BT_Indirect, r)"
    by (simp add: analyzeBranchGeneric_def)
next
  fix e
  assume "analyzeBranch A MBB TBB FBB Cond AllowModify [] = Inl e"
  then show "analyzeBranchGeneric A MBB TBB FBB Cond AllowModify = Inl e"
    by (simp add: analyzeBranchGeneric_def)
next
  fix pre Last dbgs
  assume h: "MBB = pre @ [Last] @ dbgs \<and> (\<forall>d\<in>set dbgs. isDebugValue d) \<and>
      \<not> isDebugValue Last \<and> isUnpredicatedTerminator Last \<and> A (getOpcode Last) = 0"
  then have R: "dropWhile isDebugValue (rev MBB) = Last # rev pre"
    using skip_debug [of dbgs Last pre] by simp
  from h have t: "isUnpredicatedTerminator Last" and a: "A (getOpcode Last) = 0"
    by simp_all
  show "\<exists>r. analyzeBranchGeneric A MBB TBB FBB Cond AllowModify = Inr (True, r) \<and>
           retBT r = (if isIndirectBranch Last then BT_Indirect else BT_None)"
    by (simp add: analyzeBranchGeneric_def analyzeBranch_not_analyzable [where A = A, OF R t a])
next
  fix pre Last dbgs
  assume h: "MBB = pre @ [Last] @ dbgs \<and> (\<forall>d\<in>set dbgs. isDebugValue d) \<and>
      \<not> isDebugValue Last \<and> \<not> isUnpredicatedTerminator Last"
  then have R: "dropWhile isDebugValue (rev MBB) = Last # rev pre"
    using skip_debug [of dbgs Last pre] by simp
  from h have t: "\<not> isUnpredicatedTerminator Last" by simp
  show "\<exists>r. analyzeBranchGeneric A MBB TBB FBB Cond AllowModify = Inr (False, r) \<and>
           retBT r = BT_NoBranch"
    by (simp add: analyzeBranchGeneric_def analyzeBranch_no_terminator [OF R t])
next
  assume "\<forall>d\<in>set MBB. isDebugValue d"
  then show "\<exists>r. analyzeBranchGeneric A MBB TBB FBB Cond AllowModify = Inr (False, r) \<and>
           retBT r = BT_NoBranch"
    by (simp add: analyzeBranchGeneric_def analyzeBranch_all_debug)
qed

theorem analyzeBranchGeneric_result_witness:
  "(\<exists>r. analyzeBranchGeneric sampleAnalyzableBrOpc
          [sampleInstr 12 [], sampleInstr 115 [MO_Register 31 False], sampleInstr 11 []]
          None None [] False = Inr (True, r) \<and> retBT r = BT_Indirect) \<and>
   (\<exists>r. analyzeBranchGeneric sampleAnalyzableBrOpc
          [sampleInstr 115 [MO_Register 31 False], sampleInstr 12 [], sampleInstr 11 []]
          None None [] False = Inr (False, r) \<and> retBT r = BT_NoBranch) \<and>
   analyzeBranchGeneric sampleAnalyzableBrOpc
     [sampleInstr 12 [], sampleInstr 101 [MO_MachineBasicBlock 1]] None None [] False =
     Inr (False, \<lparr>retBT = BT_Uncond,
       retMBB = [sampleInstr 12 [], sampleInstr 101 [MO_MachineBasicBlock 1]],
       retTBB = Some 1, retFBB = None, retCond = [],
       retBranchInstrs = [sampleInstr 101 [MO_MachineBasicBlock 1]]\<rparr>)"
proof -
  have indirect: "\<exists>r. analyzeBranchGeneric sampleAnalyzableBrOpc
          [sampleInstr 12 [], sampleInstr 115 [MO_Register 31 False], sampleInstr 11 []]
          None None [] False = Inr (True, r) \<and> retBT r = BT_Indirect"
    using analyzeBranchGeneric_result [of sampleAnalyzableBrOpc
        "[sampleInstr 12 [], sampleInstr 115 [MO_Register 31 False], sampleInstr 11 []]"
        None None "[]" False,
        THEN conjunct2, THEN conjunct2, THEN conjunct1, rule_format,
        of "[sampleInstr 12 []]" "sampleInstr 115 [MO_Register 31 False]" "[sampleInstr 11 []]"]
    by (simp add: accessor_defs sample_defs)
  have fall: "\<exists>r. analyzeBranchGeneric sampleAnalyzableBrOpc
          [sampleInstr 115 [MO_Register 31 False], sampleInstr 12 [], sampleInstr 11 []]
          None None [] False = Inr (False, r) \<and> retBT r = BT_NoBranch"
    using analyzeBranchGeneric_result [of sampleAnalyzableBrOpc
        "[sampleInstr 115 [MO_Register 31 False], sampleInstr 12 [], sampleInstr 11 []]"
        None None "[]" False,
        THEN conjunct2, THEN conjunct2, THEN conjunct2, THEN conjunct1, rule_format,
        of "[sampleInstr 115 [MO_Register 31 False]]" "sampleInstr 12 []" "[sampleInstr 11 []]"]
    by (simp add: accessor_defs sample_defs)
  have run: "analyzeBranch sampleAnalyzableBrOpc
     [sampleInstr 12 [], sampleInstr 101 [MO_MachineBasicBlock 1]] None None [] False [] =
     Inr \<lparr>retBT = BT_Uncond,
       retMBB = [sampleInstr 12 [], sampleInstr 101 [MO_MachineBasicBlock 1]],
       retTBB = Some 1, retFBB = None, retCond = [],
       retBranchInstrs = [sampleInstr 101 [MO_MachineBasicBlock 1]]\<rparr>"
    by (simp add: analyzeBranch_def oneTerminator_def Let_def accessor_defs sample_defs)
  have ok: "analyzeBranchGeneric sampleAnalyzableBrOpc
     [sampleInstr 12 [], sampleInstr 101 [MO_MachineBasicBlock 1]] None None [] False =
     Inr (False, \<lparr>retBT = BT_Uncond,
       retMBB = [sampleInstr 12 [], sampleInstr 101 [MO_MachineBasicBlock 1]],
       retTBB = Some 1, retFBB = None, retCond = [],
       retBranchInstrs = [sampleInstr 101 [MO_MachineBasicBlock 1]]\<rparr>)"
    using analyzeBranchGeneric_result [of sampleAnalyzableBrOpc
        "[sampleInstr 12 [], sampleInstr 101 [MO_MachineBasicBlock 1]]" None None "[]" False,
        THEN conjunct1, rule_format, OF run]
    by simp
  show ?thesis using indirect fall ok by blast
qed

section \<open>Removing, inserting and reversing branches: C5, C6 and C7\<close>







lemma copyCondOperands_explicit:
  assumes "\<forall>x\<in>set imps. isImplicitReg x" and "\<forall>x\<in>set expl. \<not> isImplicitReg x"
    and "\<forall>c\<in>set Cs. isReg c \<or> isImm c" and "Operands MIB = expl @ imps"
  shows "copyCondOperands MIB Cs =
           Inr (MIB\<lparr>Operands :=
                  expl @ map (\<lambda>c. case c of MO_Register r imp \<Rightarrow> MO_Register r False | _ \<Rightarrow> c) Cs
                    @ imps\<rparr>)"
  using assms
proof (induction Cs arbitrary: MIB expl)
  case Nil
  then show ?case by simp
next
  case (Cons c Cs)
  show ?case
  proof (cases c)
    case (MO_Register r imp)
    have ops: "Operands (addReg MIB r) = (expl @ [MO_Register r False]) @ imps"
      using Cons.prems(1,2,4)
      by (simp add: addReg_def addOperand_def CreateReg_def insertOperand_explicit)
    have "copyCondOperands (addReg MIB r) Cs = Inr ((addReg MIB r)\<lparr>Operands :=
            (expl @ [MO_Register r False]) @
            map (\<lambda>c. case c of MO_Register r imp \<Rightarrow> MO_Register r False | _ \<Rightarrow> c) Cs @ imps\<rparr>)"
      using Cons.prems by (intro Cons.IH [OF _ _ _ ops]) auto
    then show ?thesis using MO_Register by (simp add: addReg_def addOperand_def)
  next
    case (MO_Immediate v)
    have ops: "Operands (addImm MIB v) = (expl @ [MO_Immediate v]) @ imps"
      using Cons.prems(1,2,4)
      by (simp add: addImm_def addOperand_def CreateImm_def insertOperand_explicit)
    have "copyCondOperands (addImm MIB v) Cs = Inr ((addImm MIB v)\<lparr>Operands :=
            (expl @ [MO_Immediate v]) @
            map (\<lambda>c. case c of MO_Register r imp \<Rightarrow> MO_Register r False | _ \<Rightarrow> c) Cs @ imps\<rparr>)"
      using Cons.prems by (intro Cons.IH [OF _ _ _ ops]) auto
    then show ?thesis using MO_Immediate by (simp add: addImm_def addOperand_def)
  next
    case (MO_MachineBasicBlock b)
    then show ?thesis using Cons.prems(3) by simp
  next
    case (MO_ExternalSymbol s)
    then show ?thesis using Cons.prems(3) by simp
  qed
qed

lemma BuildCondBr_ok:
  assumes "\<forall>c\<in>set Cs. isReg c \<or> isImm c"
  shows "BuildCondBr get MBB T DL (MO_Immediate v # Cs) =
           Inr (MBB @ [\<lparr>Desc = get (ucast v),
                 Operands =
                   map (\<lambda>c. case c of MO_Register r imp \<Rightarrow> MO_Register r False | _ \<Rightarrow> c) Cs @
                   MO_MachineBasicBlock T #
                   map (\<lambda>r. MO_Register r True) (ImplicitOps (get (ucast v))),
                 DebugLoc = DL, memoperands = []\<rparr>])"
proof -
  let ?imps = "map (\<lambda>r. MO_Register r True) (ImplicitOps (get (ucast v)))"
  let ?plain = "map (\<lambda>c. case c of MO_Register r imp \<Rightarrow> MO_Register r False | _ \<Rightarrow> c) Cs"
  have imps: "\<forall>x\<in>set ?imps. isImplicitReg x" by simp
  have c: "copyCondOperands (BuildMI DL (get (ucast v))) Cs =
             Inr ((BuildMI DL (get (ucast v)))\<lparr>Operands := [] @ ?plain @ ?imps\<rparr>)"
    using assms by (intro copyCondOperands_explicit [OF imps]) (simp_all add: BuildMI_def)
  have plain: "\<forall>x\<in>set ?plain. \<not> isImplicitReg x"
    by (auto split: MachineOperand.splits)
  have "insertOperand (?plain @ ?imps) (MO_MachineBasicBlock T) =
          ?plain @ MO_MachineBasicBlock T # ?imps"
    using imps plain by (intro insertOperand_explicit) simp_all
  then have "addMBB ((BuildMI DL (get (ucast v)))\<lparr>Operands := [] @ ?plain @ ?imps\<rparr>) T =
      \<lparr>Desc = get (ucast v), Operands = ?plain @ MO_MachineBasicBlock T # ?imps,
       DebugLoc = DL, memoperands = []\<rparr>"
    by (simp add: addMBB_def addOperand_def CreateMBB_def BuildMI_def)
  then show ?thesis
    by (simp add: BuildCondBr_def Let_def c)
qed

lemma uncond_built:
  "addMBB (BuildMI DL (get U)) b =
     \<lparr>Desc = get U,
      Operands = MO_MachineBasicBlock b # map (\<lambda>r. MO_Register r True) (ImplicitOps (get U)),
      DebugLoc = DL, memoperands = []\<rparr>"
proof -
  have "insertOperand ([] @ map (\<lambda>r. MO_Register r True) (ImplicitOps (get U)))
          (MO_MachineBasicBlock b) =
        [] @ MO_MachineBasicBlock b # map (\<lambda>r. MO_Register r True) (ImplicitOps (get U))"
    by (intro insertOperand_explicit) simp_all
  then show ?thesis
    by (simp add: addMBB_def addOperand_def CreateMBB_def BuildMI_def)
qed

text \<open>
  C6, as amended. For every call to \<open>InsertBranch\<close> with a true target \<open>T\<close> and a
  condition that is either empty or an immediate (the opcode) followed by at most two
  register or immediate operands: with a false target \<open>F\<close> and a non-empty condition
  it appends the conditional branch built from the condition (the description of the
  opcode, the condition's operands as plain registers and immediates, then the block
  operand \<open>T\<close>) and an unconditional branch to \<open>F\<close>, and returns 2; with no false target
  it appends the conditional branch alone when the condition is non-empty, the
  unconditional branch to \<open>T\<close> when it is empty, and returns 1.
\<close>

theorem InsertBranch_inserts:
  assumes len: "length Cs \<le> 2" and wf: "\<forall>c\<in>set Cs. isReg c \<or> isImm c"
  shows "InsertBranch get UncondBrOpc MBB (Some T) (Some F) (MO_Immediate v # Cs) DL =
           Inr (MBB @
             [\<lparr>Desc = get (ucast v),
               Operands =
                 map (\<lambda>c. case c of MO_Register r imp \<Rightarrow> MO_Register r False | _ \<Rightarrow> c) Cs @
                 MO_MachineBasicBlock T #
                 map (\<lambda>r. MO_Register r True) (ImplicitOps (get (ucast v))),
               DebugLoc = DL, memoperands = []\<rparr>,
              \<lparr>Desc = get UncondBrOpc,
               Operands = MO_MachineBasicBlock F #
                 map (\<lambda>r. MO_Register r True) (ImplicitOps (get UncondBrOpc)),
               DebugLoc = DL, memoperands = []\<rparr>], 2) \<and>
         InsertBranch get UncondBrOpc MBB (Some T) None (MO_Immediate v # Cs) DL =
           Inr (MBB @
             [\<lparr>Desc = get (ucast v),
               Operands =
                 map (\<lambda>c. case c of MO_Register r imp \<Rightarrow> MO_Register r False | _ \<Rightarrow> c) Cs @
                 MO_MachineBasicBlock T #
                 map (\<lambda>r. MO_Register r True) (ImplicitOps (get (ucast v))),
               DebugLoc = DL, memoperands = []\<rparr>], 1) \<and>
         InsertBranch get UncondBrOpc MBB (Some T) None [] DL =
           Inr (MBB @
             [\<lparr>Desc = get UncondBrOpc,
               Operands = MO_MachineBasicBlock T #
                 map (\<lambda>r. MO_Register r True) (ImplicitOps (get UncondBrOpc)),
               DebugLoc = DL, memoperands = []\<rparr>], 1)"
  using len by (simp add: InsertBranch_def BuildCondBr_ok [OF wf] uncond_built)

theorem InsertBranch_inserts_witness:
  "InsertBranch sampleGet 101 [sampleInstr 12 []] (Some 1) (Some 2)
     [MO_Immediate 103, MO_Register 4 False, MO_Register 5 False] 0 =
     Inr ([sampleInstr 12 [],
           sampleInstr 103 [MO_Register 4 False, MO_Register 5 False, MO_MachineBasicBlock 1],
           sampleInstr 101 [MO_MachineBasicBlock 2]], 2) \<and>
   InsertBranch sampleGet 101 [sampleInstr 12 []] (Some 1) None
     [MO_Immediate 103, MO_Register 4 False, MO_Register 5 False] 0 =
     Inr ([sampleInstr 12 [],
           sampleInstr 103 [MO_Register 4 False, MO_Register 5 False, MO_MachineBasicBlock 1]],
          1) \<and>
   InsertBranch sampleGet 101 [sampleInstr 12 []] (Some 1) None [] 0 =
     Inr ([sampleInstr 12 [], sampleInstr 101 [MO_MachineBasicBlock 1]], 1)"
  using InsertBranch_inserts [of "[MO_Register 4 False, MO_Register 5 False]" sampleGet 101
      "[sampleInstr 12 []]" 1 2 103 0]
  by (simp add: sample_defs)

text \<open>
  The claim as stated fails for a call with a false target and an empty condition:
  building the conditional branch reads \<open>Cond[0]\<close>, out of range.
\<close>

theorem InsertBranch_inserts_counterexample:
  "InsertBranch sampleGet 101 [sampleInstr 12 []] (Some 1) (Some 2) [] 0 = Inl InvalidIndex"
  by (simp add: InsertBranch_def BuildCondBr_def)

lemma AnalyzeCondBr_shape:
  "AnalyzeCondBr A I Opc C0 = Inr (b, C) \<Longrightarrow>
   \<exists>v ops. C = C0 @ MO_Immediate v # ops \<and> ucast (ucast v :: opcode) = v"
  by (auto simp add: AnalyzeCondBr_def Let_def CreateImm_def opcode_imm_opcode
      split: if_splits sum.splits)

lemma oneTerminator_Cond:
  "oneTerminator A L st = Inr r \<Longrightarrow>
   retCond r = retCond st \<or>
   (\<exists>v ops. retCond r = retCond st @ MO_Immediate v # ops \<and> ucast (ucast v :: opcode) = v)"
  by (auto simp add: oneTerminator_def split: if_splits sum.splits prod.splits
      dest!: AnalyzeCondBr_shape)

lemma twoTerminators_Cond:
  "twoTerminators A AM n L S SO R2 st = Inr r \<Longrightarrow>
   retCond r = retCond st \<or>
   (\<exists>v ops. retCond r = retCond st @ MO_Immediate v # ops \<and> ucast (ucast v :: opcode) = v)"
  by (auto simp add: twoTerminators_def Let_def split: if_splits sum.splits prod.splits
      dest!: AnalyzeCondBr_shape)

lemma analyzeBranch_Cond:
  assumes "analyzeBranch A MBB TBB FBB C0 AM BI = Inr r"
  shows "retCond r = C0 \<or>
   (\<exists>v ops. retCond r = C0 @ MO_Immediate v # ops \<and> ucast (ucast v :: opcode) = v)"
  using assms
  by (auto simp add: analyzeBranch_def Let_def split: list.splits if_splits
      dest!: oneTerminator_Cond twoTerminators_Cond)

text \<open>
  C7. Let \<open>analyzeBranch\<close>, called with an empty condition, return a condition of 1
  to 3 elements. Its first element is the immediate of an opcode \<open>Opc\<close>; one
  \<open>ReverseBranchCondition\<close> replaces that element by the immediate of the opposite
  opcode and leaves every other element as it is; and when the negation table is its
  own inverse at \<open>Opc\<close>, a second \<open>ReverseBranchCondition\<close> gives the condition back.
\<close>

theorem ReverseBranchCondition_round_trip:
  assumes ana: "analyzeBranch A MBB TBB FBB [] AllowModify BI = Inr r"
    and len: "1 \<le> length (retCond r)" "length (retCond r) \<le> 3"
  shows "\<exists>Opc ops. retCond r = MO_Immediate (ucast Opc) # ops \<and>
           ReverseBranchCondition opp (retCond r) =
             Inr (MO_Immediate (ucast (opp Opc)) # ops, False) \<and>
           (negationTable opp Opc \<longrightarrow>
              ReverseBranchCondition opp (MO_Immediate (ucast (opp Opc)) # ops) =
                Inr (retCond r, False))"
proof -
  from analyzeBranch_Cond [OF ana] len(1)
  obtain v ops where v: "retCond r = MO_Immediate v # ops" "ucast (ucast v :: opcode) = v"
    by auto
  define Opc :: opcode where "Opc = ucast v"
  have c: "retCond r = MO_Immediate (ucast Opc) # ops"
    using v by (simp add: Opc_def)
  have rev: "ReverseBranchCondition opp (MO_Immediate (ucast x) # ops) =
          Inr (MO_Immediate (ucast (opp x)) # ops, False)" for x :: opcode
    using len(2) c by (simp add: ReverseBranchCondition_def opcode_imm_opcode)
  have "ReverseBranchCondition opp (retCond r) =
          Inr (MO_Immediate (ucast (opp Opc)) # ops, False)"
    unfolding c by (rule rev)
  moreover have "ReverseBranchCondition opp (MO_Immediate (ucast (opp Opc)) # ops) =
          Inr (retCond r, False)" if "negationTable opp Opc"
    using that unfolding rev c by (simp add: negationTable_def)
  ultimately show ?thesis using c by blast
qed

theorem ReverseBranchCondition_round_trip_witness:
  "analyzeBranch sampleAnalyzableBrOpc
     [sampleInstr 103 [MO_Register 4 False, MO_Register 5 False, MO_MachineBasicBlock 1],
      sampleInstr 101 [MO_MachineBasicBlock 2]] None None [] False [] =
     Inr \<lparr>retBT = BT_CondUncond,
          retMBB =
            [sampleInstr 103 [MO_Register 4 False, MO_Register 5 False, MO_MachineBasicBlock 1],
             sampleInstr 101 [MO_MachineBasicBlock 2]],
          retTBB = Some 1, retFBB = Some 2,
          retCond = [MO_Immediate 103, MO_Register 4 False, MO_Register 5 False],
          retBranchInstrs =
            [sampleInstr 103 [MO_Register 4 False, MO_Register 5 False, MO_MachineBasicBlock 1],
             sampleInstr 101 [MO_MachineBasicBlock 2]]\<rparr> \<and>
   negationTable sampleOppositeBranchOpc 103 \<and>
   ReverseBranchCondition sampleOppositeBranchOpc
     [MO_Immediate 103, MO_Register 4 False, MO_Register 5 False] =
     Inr ([MO_Immediate 105, MO_Register 4 False, MO_Register 5 False], False) \<and>
   ReverseBranchCondition sampleOppositeBranchOpc
     [MO_Immediate 105, MO_Register 4 False, MO_Register 5 False] =
     Inr ([MO_Immediate 103, MO_Register 4 False, MO_Register 5 False], False)"
proof -
  let ?r = "\<lparr>retBT = BT_CondUncond,
          retMBB =
            [sampleInstr 103 [MO_Register 4 False, MO_Register 5 False, MO_MachineBasicBlock 1],
             sampleInstr 101 [MO_MachineBasicBlock 2]],
          retTBB = Some 1, retFBB = Some 2,
          retCond = [MO_Immediate 103, MO_Register 4 False, MO_Register 5 False],
          retBranchInstrs =
            [sampleInstr 103 [MO_Register 4 False, MO_Register 5 False, MO_MachineBasicBlock 1],
             sampleInstr 101 [MO_MachineBasicBlock 2]]\<rparr>"
  have run: "analyzeBranch sampleAnalyzableBrOpc
     [sampleInstr 103 [MO_Register 4 False, MO_Register 5 False, MO_MachineBasicBlock 1],
      sampleInstr 101 [MO_MachineBasicBlock 2]] None None [] False [] = Inr ?r"
    by (simp add: analysis_defs accessor_defs sample_defs)
  have neg: "negationTable sampleOppositeBranchOpc 103"
    by (simp add: negationTable_def sampleOppositeBranchOpc_def)
  from ReverseBranchCondition_round_trip [OF run, of sampleOppositeBranchOpc]
  obtain Opc ops where o: "retCond ?r = MO_Immediate (ucast Opc) # ops"
    and one: "ReverseBranchCondition sampleOppositeBranchOpc (retCond ?r) =
             Inr (MO_Immediate (ucast (sampleOppositeBranchOpc Opc)) # ops, False)"
    and two: "negationTable sampleOppositeBranchOpc Opc \<longrightarrow>
              ReverseBranchCondition sampleOppositeBranchOpc
                (MO_Immediate (ucast (sampleOppositeBranchOpc Opc)) # ops) =
                Inr (retCond ?r, False)"
    by auto
  from o have "(ucast Opc :: 64 word) = 103" and ops: "ops = [MO_Register 4 False, MO_Register 5 False]"
    by simp_all
  then have "(ucast (ucast Opc :: 64 word) :: opcode) = ucast (103 :: 64 word)"
    by simp
  then have Opc: "Opc = 103"
    by (simp add: opcode_imm_opcode)
  have opp: "sampleOppositeBranchOpc 103 = 105"
    by (simp add: sampleOppositeBranchOpc_def)
  show ?thesis
    using run neg one two unfolding Opc ops opp by simp
qed

section \<open>Instruction rebuilder: C2\<close>

lemma addOperandsOf_explicit:
  assumes "\<forall>x\<in>set imps. isImplicitReg x" and "\<forall>x\<in>set expl. \<not> isImplicitReg x"
    and "\<forall>J\<in>set Js. J < length (Operands I) \<and> \<not> isImplicitReg (Operands I ! J)"
    and "Operands MIB = expl @ imps"
  shows "addOperandsOf I Js MIB =
           Inr (MIB\<lparr>Operands := expl @ map (\<lambda>J. Operands I ! J) Js @ imps\<rparr>)"
  using assms
proof (induction Js arbitrary: MIB expl)
  case Nil
  then show ?case by simp
next
  case (Cons J Js)
  have ops: "Operands (addOperand MIB (Operands I ! J)) = (expl @ [Operands I ! J]) @ imps"
    using Cons.prems by (simp add: addOperand_def insertOperand_explicit)
  have "addOperandsOf I Js (addOperand MIB (Operands I ! J)) =
          Inr ((addOperand MIB (Operands I ! J))\<lparr>Operands :=
                 (expl @ [Operands I ! J]) @ map (\<lambda>J. Operands I ! J) Js @ imps\<rparr>)"
    using Cons.prems by (intro Cons.IH [OF _ _ _ ops]) auto
  then show ?case using Cons.prems(3) by (simp add: getOperand_def addOperand_def)
qed

lemma copyImplicit_fold:
  "\<forall>x\<in>set L. isImplicitReg x \<Longrightarrow>
   fold (\<lambda>MO MI. addOperand MI MO) L MIB = MIB\<lparr>Operands := Operands MIB @ L\<rparr>"
proof (induction L arbitrary: MIB)
  case Nil
  then show ?case by simp
next
  case (Cons x L)
  then show ?case by (simp add: addOperand_def insertOperand_def)
qed

lemma nth_from_2:
  assumes "ops = a # b # rest" and "E \<le> length ops"
  shows "map (\<lambda>J. ops ! J) [2..<E] = take (E - 2) rest"
proof (rule nth_equalityI)
  show "length (map (\<lambda>J. ops ! J) [2..<E]) = length (take (E - 2) rest)"
    using assms by auto
next
  fix k
  assume "k < length (map (\<lambda>J. ops ! J) [2..<E])"
  then show "map (\<lambda>J. ops ! J) [2..<E] ! k = take (E - 2) rest ! k"
    using assms by (simp add: numeral_2_eq_2)
qed

text \<open>
  C2, as amended. Let the original instruction be a non-pseudo branch whose operand 1
  is a zero register (\<open>ZERO\<close> or \<open>ZERO_64\<close>), with its explicit operands first, and let
  the opcode chosen not be of the \<open>JIC\<close>/\<open>JIALC\<close> family. Then \<open>genInstrWithNewOpc\<close>
  always drops operand 1: the new instruction, inserted before the original, has
  operand 0 and the operands from index 2 up to the schema arity of the original,
  then the implicit operands of its own description and of the original, and the
  original's debug location and memory operands. Its opcode is the zero-operand
  variant exactly when the given opcode is \<open>BEQC\<close>, \<open>BNEC\<close>, \<open>BGEC\<close> or \<open>BLTC\<close>, and the
  given opcode otherwise.
\<close>

theorem genInstrWithNewOpc_zero_operand:
  assumes inj: "inj Mips"
    and br: "isBranch I" "\<not> isPseudo I"
    and pos: "i < length MBB" "MBB ! i = I"
    and ops: "Operands I = op0 # MO_Register z imp # rest"
    and z: "z = ZERO \<or> z = ZERO_64"
    and arity: "NumOperands (Desc I) \<le> length (Operands I)"
    and expl: "\<forall>x\<in>set (op0 # take (NumOperands (Desc I) - 2) rest). \<not> isImplicitReg x"
    and notJ: "zeroForm Mips NewOpc \<notin> {Mips JIC, Mips JIALC, Mips JIC64, Mips JIALC64}"
  shows "genInstrWithNewOpc Mips ZERO ZERO_64 get NewOpc MBB i =
           Inr (take i MBB @
                \<lparr>Desc = get (zeroForm Mips NewOpc),
                 Operands = op0 # take (NumOperands (Desc I) - 2) rest @
                   map (\<lambda>r. MO_Register r True) (ImplicitOps (get (zeroForm Mips NewOpc))) @
                   filter isImplicitReg (drop (NumOperands (Desc I)) (Operands I)),
                 DebugLoc = DebugLoc I, memoperands = memoperands I\<rparr> # drop i MBB,
                \<lparr>Desc = get (zeroForm Mips NewOpc),
                 Operands = op0 # take (NumOperands (Desc I) - 2) rest @
                   map (\<lambda>r. MO_Register r True) (ImplicitOps (get (zeroForm Mips NewOpc))) @
                   filter isImplicitReg (drop (NumOperands (Desc I)) (Operands I)),
                 DebugLoc = DebugLoc I, memoperands = memoperands I\<rparr>) \<and>
         zeroForm Mips NewOpc =
           (if NewOpc = Mips BEQC then Mips BEQZC else if NewOpc = Mips BNEC then Mips BNEZC
            else if NewOpc = Mips BGEC then Mips BGEZC else if NewOpc = Mips BLTC then Mips BLTZC
            else NewOpc) \<and>
         (zeroForm Mips NewOpc \<noteq> NewOpc \<longleftrightarrow>
            NewOpc \<in> {Mips BEQC, Mips BNEC, Mips BGEC, Mips BLTC})"
proof -
  let ?E = "NumOperands (Desc I)"
  let ?N = "zeroForm Mips NewOpc"
  let ?imps = "map (\<lambda>r. MO_Register r True) (ImplicitOps (get ?N))"
  let ?own = "filter isImplicitReg (drop ?E (Operands I))"
  have bz: "BranchWithZeroOperand ZERO ZERO_64 I = Inr True"
    using br ops z by (simp add: BranchWithZeroOperand_def getOperand_def)
  have idx: "\<forall>J\<in>set (0 # [2..<?E]). J < length (Operands I) \<and> \<not> isImplicitReg (Operands I ! J)"
  proof
    fix J
    assume J: "J \<in> set (0 # [2..<?E])"
    show "J < length (Operands I) \<and> \<not> isImplicitReg (Operands I ! J)"
    proof (cases "J = 0")
      case True
      then show ?thesis using ops expl by simp
    next
      case False
      then have J2: "2 \<le> J" "J < ?E" using J by auto
      then have "Operands I ! J = take (?E - 2) rest ! (J - 2)"
        using ops by (simp add: nth_Cons' numeral_2_eq_2)
      moreover have "J - 2 < length (take (?E - 2) rest)"
        using J2 arity ops by simp
      ultimately have "Operands I ! J \<in> set (take (?E - 2) rest)"
        by (metis nth_mem)
      then show ?thesis using expl J2 arity by auto
    qed
  qed
  have "addOperandsOf I (0 # [2..<?E]) (BuildMI (DebugLoc I) (get ?N)) =
          Inr ((BuildMI (DebugLoc I) (get ?N))\<lparr>Operands :=
                 [] @ map (\<lambda>J. Operands I ! J) (0 # [2..<?E]) @ ?imps\<rparr>)"
    using idx by (intro addOperandsOf_explicit) (simp_all add: BuildMI_def)
  moreover have "map (\<lambda>J. Operands I ! J) (0 # [2..<?E]) = op0 # take (?E - 2) rest"
    using nth_from_2 [OF ops arity] ops by simp
  ultimately have cp: "copyExplicitOps Mips ?N True I (BuildMI (DebugLoc I) (get ?N)) =
      Inr ((BuildMI (DebugLoc I) (get ?N))\<lparr>Operands := op0 # take (?E - 2) rest @ ?imps\<rparr>)"
    using notJ by (simp add: copyExplicitOps_def Let_def)
  have own: "\<forall>x\<in>set ?own. isImplicitReg x" by simp
  have gen: "genInstrWithNewOpc Mips ZERO ZERO_64 get NewOpc MBB i =
           Inr (take i MBB @
                \<lparr>Desc = get ?N, Operands = op0 # take (?E - 2) rest @ ?imps @ ?own,
                 DebugLoc = DebugLoc I, memoperands = memoperands I\<rparr> # drop i MBB,
                \<lparr>Desc = get ?N, Operands = op0 # take (?E - 2) rest @ ?imps @ ?own,
                 DebugLoc = DebugLoc I, memoperands = memoperands I\<rparr>)"
    using pos
    by (simp add: genInstrWithNewOpc_def bz cp Let_def copyImplicitOps_def
        copyImplicit_fold [OF own] setMemRefs_def)
      (simp add: BuildMI_def)
  note eq = inj_eq [OF inj]
  have tab: "zeroForm Mips NewOpc =
           (if NewOpc = Mips BEQC then Mips BEQZC else if NewOpc = Mips BNEC then Mips BNEZC
            else if NewOpc = Mips BGEC then Mips BGEZC else if NewOpc = Mips BLTC then Mips BLTZC
            else NewOpc)"
    by (simp add: zeroForm_def)
  have chg: "zeroForm Mips NewOpc \<noteq> NewOpc \<longleftrightarrow>
            NewOpc \<in> {Mips BEQC, Mips BNEC, Mips BGEC, Mips BLTC}"
    by (auto simp add: zeroForm_def eq)
  show ?thesis using gen tab chg by blast
qed

text \<open>
  The end-to-end example: rebuilding \<open>BEQ $1, $zero, BB1\<close> with \<open>BEQC\<close> gives \<open>BEQZC\<close>
  with the operands \<open>$1, BB1\<close>.
\<close>

theorem genInstrWithNewOpc_zero_operand_witness:
  "genInstrWithNewOpc sampleMips sampleZERO sampleZERO_64 sampleGet (sampleMips BEQC)
     [sampleInstr (sampleMips BEQ)
        [MO_Register 5 False, MO_Register sampleZERO False, MO_MachineBasicBlock 1]] 0 =
     Inr ([sampleInstr (sampleMips BEQZC) [MO_Register 5 False, MO_MachineBasicBlock 1],
           sampleInstr (sampleMips BEQ)
             [MO_Register 5 False, MO_Register sampleZERO False, MO_MachineBasicBlock 1]],
          sampleInstr (sampleMips BEQZC) [MO_Register 5 False, MO_MachineBasicBlock 1]) \<and>
   zeroForm sampleMips (sampleMips BEQC) = sampleMips BEQZC"
  using genInstrWithNewOpc_zero_operand [OF inj_sampleMips,
      of "sampleInstr (sampleMips BEQ)
        [MO_Register 5 False, MO_Register sampleZERO False, MO_MachineBasicBlock 1]"
      0 "[sampleInstr (sampleMips BEQ)
        [MO_Register 5 False, MO_Register sampleZERO False, MO_MachineBasicBlock 1]]"
      "MO_Register 5 False" sampleZERO False "[MO_MachineBasicBlock 1]"
      sampleZERO sampleZERO_64 "sampleMips BEQC" sampleGet]
  by (simp add: accessor_defs sample_defs zeroForm_def)

text \<open>
  The claim as stated fails for an opcode with no zero-operand variant in the table:
  rebuilding \<open>BEQ_MM $5, $zero, BB1\<close> with \<open>BEQZC_MM\<close> keeps the opcode and still drops
  operand 1.
\<close>

theorem genInstrWithNewOpc_zero_operand_counterexample:
  "zeroForm sampleMips (sampleMips BEQZC_MM) = sampleMips BEQZC_MM \<and>
   genInstrWithNewOpc sampleMips sampleZERO sampleZERO_64 sampleGet (sampleMips BEQZC_MM)
     [sampleInstr (sampleMips BEQ_MM)
        [MO_Register 5 False, MO_Register sampleZERO False, MO_MachineBasicBlock 1]] 0 =
     Inr ([sampleInstr (sampleMips BEQZC_MM) [MO_Register 5 False, MO_MachineBasicBlock 1],
           sampleInstr (sampleMips BEQ_MM)
             [MO_Register 5 False, MO_Register sampleZERO False, MO_MachineBasicBlock 1]],
          sampleInstr (sampleMips BEQZC_MM) [MO_Register 5 False, MO_MachineBasicBlock 1])"
  by (simp add: genInstrWithNewOpc_def BranchWithZeroOperand_def zeroForm_def
      copyExplicitOps_def copyImplicitOps_def setMemRefs_def BuildMI_def addOperand_def
      insertOperand_def Let_def accessor_defs sample_defs upt_rec)

end
